theory Spec2Isabelle
  imports Complex_Main
begin

section \<open>The day/night simulation (daynight.py)\<close>

text \<open>
  The physics core of \<^verbatim>\<open>daynight.py\<close>: \<^verbatim>\<open>advance_point\<close>,
  \<^verbatim>\<open>ball_rect_collision\<close>, \<^verbatim>\<open>run_ball\<close>, \<^verbatim>\<open>run\<close> and the constructor of
  \<^verbatim>\<open>GameState\<close>.

  Modelling conventions.
  \<^item> Python floats (the coordinates of a pygame \<^verbatim>\<open>Vector2\<close>, \<^verbatim>\<open>dt\<close>, the radius) are
    real numbers: rounding is not modelled, so "equal within floating-point tolerance"
    reads as "equal".
  \<^item> A pygame \<^verbatim>\<open>Rect\<close> holds four integers (x, y, w, h); \<^verbatim>\<open>right = x + w\<close> and
    \<^verbatim>\<open>bottom = y + h\<close>.
  \<^item> A raised exception is the \<open>Inl\<close> branch of a sum: \<^verbatim>\<open>ValueError\<close> from pygame's
    \<^verbatim>\<open>normalize\<close>/\<^verbatim>\<open>reflect\<close> on a zero vector, \<^verbatim>\<open>IndexError\<close> from \<^verbatim>\<open>grid[j][i]\<close>.
  \<^item> The grid is a list of rows, each a list of cells; \<^verbatim>\<open>GameState.__init__\<close> builds
    every row as a list of its own, so the in-place store \<^verbatim>\<open>grid[j][i] = ...\<close> is a
    functional update of one cell.
\<close>

subsection \<open>Constants\<close>

definition GRIDX :: nat where "GRIDX = 10"
definition GRIDY :: nat where "GRIDY = 10"
definition RECTSIZE :: real where "RECTSIZE = 25"
definition BALLSIZE :: real where "BALLSIZE = 10"
definition BALLSPEED :: real where "BALLSPEED = 1 / 2"

subsection \<open>pygame values: Vector2 and Rect\<close>

datatype error = ValueError | IndexError

datatype Vector2 = Vector2 (vec_x: real) (vec_y: real)

text \<open>\<^verbatim>\<open>a + b\<close>, \<^verbatim>\<open>a - b\<close>, \<^verbatim>\<open>v * s\<close> and \<^verbatim>\<open>v / s\<close> on vectors, the dot product and the length.\<close>

definition vec_add :: "Vector2 \<Rightarrow> Vector2 \<Rightarrow> Vector2" where
  "vec_add a b = Vector2 (vec_x a + vec_x b) (vec_y a + vec_y b)"

definition vec_sub :: "Vector2 \<Rightarrow> Vector2 \<Rightarrow> Vector2" where
  "vec_sub a b = Vector2 (vec_x a - vec_x b) (vec_y a - vec_y b)"

definition vec_mul :: "Vector2 \<Rightarrow> real \<Rightarrow> Vector2" where
  "vec_mul v s = Vector2 (vec_x v * s) (vec_y v * s)"

definition vec_div :: "Vector2 \<Rightarrow> real \<Rightarrow> Vector2" where
  "vec_div v s = Vector2 (vec_x v / s) (vec_y v / s)"

definition vec_dot :: "Vector2 \<Rightarrow> Vector2 \<Rightarrow> real" where
  "vec_dot a b = vec_x a * vec_x b + vec_y a * vec_y b"

definition vec_length :: "Vector2 \<Rightarrow> real" where
  "vec_length v = sqrt (vec_dot v v)"

text \<open>
  \<^verbatim>\<open>Vector2.normalize()\<close>: the vector divided by its length; pygame raises
  \<^verbatim>\<open>ValueError\<close> for a vector of length zero.
\<close>

definition normalize :: "Vector2 \<Rightarrow> error + Vector2" where
  "normalize v =
     (let l = vec_length v
      in if l = 0 then Inl ValueError else Inr (vec_div v l))"

text \<open>
  \<^verbatim>\<open>Vector2.reflect(normal)\<close>: pygame normalises the normal (raising \<^verbatim>\<open>ValueError\<close> when
  it is the zero vector) and returns \<open>v - 2 * dot(v, n) * n\<close>.
\<close>

definition reflect :: "Vector2 \<Rightarrow> Vector2 \<Rightarrow> error + Vector2" where
  "reflect v normal =
     (case normalize normal of
        Inl e \<Rightarrow> Inl e
      | Inr n \<Rightarrow> Inr (vec_sub v (vec_mul n (2 * vec_dot v n))))"

datatype Rect = Rect (rect_x: int) (rect_y: int) (rect_w: int) (rect_h: int)

definition rect_left :: "Rect \<Rightarrow> int" where "rect_left r = rect_x r"
definition rect_top :: "Rect \<Rightarrow> int" where "rect_top r = rect_y r"
definition rect_right :: "Rect \<Rightarrow> int" where "rect_right r = rect_x r + rect_w r"
definition rect_bottom :: "Rect \<Rightarrow> int" where "rect_bottom r = rect_y r + rect_h r"

text \<open>pygame turns a float argument of \<^verbatim>\<open>Rect(...)\<close> and \<^verbatim>\<open>Rect.move\<close> into an int by truncation.\<close>

definition py_int :: "real \<Rightarrow> int" where
  "py_int v = (if 0 \<le> v then \<lfloor>v\<rfloor> else \<lceil>v\<rceil>)"

definition rect_move :: "Rect \<Rightarrow> real \<Rightarrow> real \<Rightarrow> Rect" where
  "rect_move r dx dy = Rect (rect_x r + py_int dx) (rect_y r + py_int dy) (rect_w r) (rect_h r)"

subsection \<open>The grid and the game state\<close>

type_synonym cell = "Rect \<times> bool"
type_synonym grid = "cell list list"

text \<open>\<^verbatim>\<open>grid[j][i]\<close> for indices from \<^verbatim>\<open>range\<close>: out of range raises \<^verbatim>\<open>IndexError\<close>.\<close>

definition grid_get :: "grid \<Rightarrow> nat \<Rightarrow> nat \<Rightarrow> error + cell" where
  "grid_get g j i =
     (if j < length g \<and> i < length (g ! j) then Inr (g ! j ! i) else Inl IndexError)"

text \<open>\<^verbatim>\<open>grid[j][i] = c\<close>, after \<^verbatim>\<open>grid[j][i]\<close> has been read.\<close>

definition grid_set :: "grid \<Rightarrow> nat \<Rightarrow> nat \<Rightarrow> cell \<Rightarrow> grid" where
  "grid_set g j i c = g[j := (g ! j)[i := c]]"

record GameState =
  running :: bool
  paused :: bool
  grid :: grid
  dayball :: Vector2
  nightball :: Vector2
  dayball_direction :: Vector2
  nightball_direction :: Vector2

text \<open>
  \<^verbatim>\<open>GameState.__init__\<close>. The two \<^verbatim>\<open>normalize()\<close> calls are on the non-zero constants
  \<open>(1, 1)\<close> and \<open>(-1, -1)\<close>; the constructor's result is the sum they give.
\<close>

definition init_grid :: grid where
  "init_grid =
     (let r = Rect 0 0 (py_int RECTSIZE) (py_int RECTSIZE)
      in map (\<lambda>j. map (\<lambda>i. (rect_move r (RECTSIZE * real i) (RECTSIZE * real j),
                              real i < real GRIDX / 2))
                        [0..<GRIDX])
             [0..<GRIDY])"

definition GameState_init :: "error + GameState" where
  "GameState_init =
     (let gridsize = Vector2 (real GRIDX * RECTSIZE) (real GRIDY * RECTSIZE);
          db = vec_div gridsize 2;
          nb = vec_div gridsize 2;
          db = Vector2 (vec_x db + vec_x gridsize / 4) (vec_y db);
          nb = Vector2 (vec_x nb - vec_x gridsize / 4) (vec_y nb)
      in case normalize (Vector2 1 1) of
           Inl e \<Rightarrow> Inl e
         | Inr dd \<Rightarrow>
             (case normalize (Vector2 (-1) (-1)) of
                Inl e \<Rightarrow> Inl e
              | Inr nd \<Rightarrow>
                  Inr \<lparr> running = True, paused = True, grid = init_grid,
                        dayball = db, nightball = nb,
                        dayball_direction = dd, nightball_direction = nd \<rparr>))"

subsection \<open>Motion and collision\<close>

definition advance_point :: "Vector2 \<Rightarrow> Vector2 \<Rightarrow> real \<Rightarrow> real \<Rightarrow> Vector2" where
  "advance_point point direction speed dt = vec_add point (vec_mul (vec_mul direction speed) dt)"

text \<open>
  \<^verbatim>\<open>ball_rect_collision\<close>: \<open>None\<close> is Python's \<^verbatim>\<open>None\<close> (no collision), \<open>Some n\<close> the
  returned normal. The pairs \<open>(test_x, xnormal)\<close> and \<open>(test_y, ynormal)\<close> are the two
  variables each \<^verbatim>\<open>if\<close>/\<^verbatim>\<open>elif\<close> assigns together.
\<close>

definition ball_rect_collision :: "Vector2 \<Rightarrow> real \<Rightarrow> Rect \<Rightarrow> Vector2 option" where
  "ball_rect_collision center radius rect =
     (let (test_x, xnormal) =
            (if vec_x center < real_of_int (rect_left rect)
               then (real_of_int (rect_left rect), Some (Vector2 (-1) 0))
             else if vec_x center > real_of_int (rect_right rect)
               then (real_of_int (rect_right rect), Some (Vector2 1 0))
             else (vec_x center, None));
          (test_y, ynormal) =
            (if vec_y center < real_of_int (rect_top rect)
               then (real_of_int (rect_top rect), Some (Vector2 1 0))
             else if vec_y center > real_of_int (rect_bottom rect)
               then (real_of_int (rect_bottom rect), Some (Vector2 (-1) 0))
             else (vec_y center, None));
          dist_x = vec_x center - test_x;
          dist_y = vec_y center - test_y;
          distance = sqrt (dist_x * dist_x + dist_y * dist_y)
      in if distance > radius then None
         else
           (let normal =
                  (if real_of_int (rect_left rect) \<le> vec_x center
                      \<and> vec_x center \<le> real_of_int (rect_right rect)
                     then ynormal
                   else if real_of_int (rect_top rect) \<le> vec_y center
                      \<and> vec_y center \<le> real_of_int (rect_bottom rect)
                     then xnormal
                   else None)
            in Some (case normal of None \<Rightarrow> Vector2 1 0 | Some n \<Rightarrow> n)))"

text \<open>
  The loops of \<^verbatim>\<open>run_ball\<close>. The loop state is \<open>(new_center, new_direction, grid)\<close>.
  \<open>scan_row\<close> is the inner \<^verbatim>\<open>for i in range(GRIDX)\<close> on the columns still to visit:
  \<^verbatim>\<open>continue\<close> and a \<^verbatim>\<open>None\<close> from the resolver go on with the next column, a hit
  updates the state and leaves the inner loop (\<^verbatim>\<open>break\<close>). \<open>scan_rows\<close> is the outer
  \<^verbatim>\<open>for j in range(GRIDY)\<close>: the \<^verbatim>\<open>break\<close> belongs to the inner loop, so the outer
  loop goes on with the next row.
\<close>

type_synonym scan_state = "Vector2 \<times> Vector2 \<times> grid"

fun scan_row :: "Vector2 \<Rightarrow> bool \<Rightarrow> real \<Rightarrow> nat \<Rightarrow> nat list \<Rightarrow> scan_state \<Rightarrow> error + scan_state" where
  "scan_row center ball_type dt j [] st = Inr st"
| "scan_row center ball_type dt j (i # cols) (new_center, new_direction, g) =
     (case grid_get g j i of
        Inl e \<Rightarrow> Inl e
      | Inr (rect, cell_type) \<Rightarrow>
          if cell_type \<noteq> ball_type
            then scan_row center ball_type dt j cols (new_center, new_direction, g)
          else
            (case ball_rect_collision center BALLSIZE rect of
               None \<Rightarrow> scan_row center ball_type dt j cols (new_center, new_direction, g)
             | Some normal \<Rightarrow>
                 (case reflect new_direction normal of
                    Inl e \<Rightarrow> Inl e
                  | Inr d \<Rightarrow>
                      Inr (advance_point center d BALLSPEED dt, d,
                           grid_set g j i (rect, \<not> cell_type)))))"

fun scan_rows :: "Vector2 \<Rightarrow> bool \<Rightarrow> real \<Rightarrow> nat list \<Rightarrow> scan_state \<Rightarrow> error + scan_state" where
  "scan_rows center ball_type dt [] st = Inr st"
| "scan_rows center ball_type dt (j # rows) st =
     (case scan_row center ball_type dt j [0..<GRIDX] st of
        Inl e \<Rightarrow> Inl e
      | Inr st' \<Rightarrow> scan_rows center ball_type dt rows st')"

text \<open>
  The boundary part of \<^verbatim>\<open>run_ball\<close> (the \<^verbatim>\<open>if\<close>/\<^verbatim>\<open>elif\<close> chain on the tentative
  centre): the normal chosen, if any.
\<close>

definition boundary_normal :: "Vector2 \<Rightarrow> error + Vector2 option" where
  "boundary_normal new_center =
     (if vec_x new_center - BALLSIZE < 0 then map_sum id Some (normalize (Vector2 1 0))
      else if vec_y new_center - BALLSIZE < 0 then map_sum id Some (normalize (Vector2 0 (-1)))
      else if vec_x new_center + BALLSIZE > RECTSIZE * real GRIDX
        then map_sum id Some (normalize (Vector2 (-1) 0))
      else if vec_y new_center + BALLSIZE > RECTSIZE * real GRIDY
        then map_sum id Some (normalize (Vector2 0 1))
      else Inr None)"

definition run_ball :: "Vector2 \<Rightarrow> Vector2 \<Rightarrow> grid \<Rightarrow> bool \<Rightarrow> real \<Rightarrow> error + scan_state" where
  "run_ball center direction g ball_type dt =
     (let new_center = advance_point center direction BALLSPEED dt;
          new_direction = direction
      in case boundary_normal new_center of
           Inl e \<Rightarrow> Inl e
         | Inr None \<Rightarrow> scan_rows center ball_type dt [0..<GRIDY] (new_center, new_direction, g)
         | Inr (Some normal) \<Rightarrow>
             (case reflect new_direction normal of
                Inl e \<Rightarrow> Inl e
              | Inr d \<Rightarrow>
                  scan_rows center ball_type dt [0..<GRIDY]
                    (advance_point center d BALLSPEED dt, d, g)))"

text \<open>\<^verbatim>\<open>run\<close>: the day ball first, then the night ball on the grid the day ball left.\<close>

definition run :: "GameState \<Rightarrow> int \<Rightarrow> error + GameState" where
  "run state dt =
     (if paused state then Inr state
      else
        (case run_ball (dayball state) (dayball_direction state) (grid state) True (real_of_int dt) of
           Inl e \<Rightarrow> Inl e
         | Inr (c, d, g) \<Rightarrow>
             (let state = state \<lparr> dayball := c, dayball_direction := d, grid := g \<rparr>
              in case run_ball (nightball state) (nightball_direction state) (grid state) False
                        (real_of_int dt) of
                   Inl e \<Rightarrow> Inl e
                 | Inr (c, d, g) \<Rightarrow>
                     Inr (state \<lparr> nightball := c, nightball_direction := d, grid := g \<rparr>))))"

section \<open>Definitions that follow the specification's words\<close>

text \<open>
  The nearest point of the rectangle, as the specification describes it: the centre
  clamped to the rectangle's bounds on each axis, and the Euclidean distance to it.
\<close>

definition clamp :: "real \<Rightarrow> real \<Rightarrow> real \<Rightarrow> real" where
  "clamp lo hi v = (if v < lo then lo else if hi < v then hi else v)"

definition nearest_point :: "Vector2 \<Rightarrow> Rect \<Rightarrow> Vector2" where
  "nearest_point center rect =
     Vector2 (clamp (real_of_int (rect_left rect)) (real_of_int (rect_right rect)) (vec_x center))
             (clamp (real_of_int (rect_top rect)) (real_of_int (rect_bottom rect)) (vec_y center))"

definition euclidean_distance :: "Vector2 \<Rightarrow> Vector2 \<Rightarrow> real" where
  "euclidean_distance a b = sqrt ((vec_x a - vec_x b)\<^sup>2 + (vec_y a - vec_y b)\<^sup>2)"

text \<open>The centre lies within the horizontal (vertical) span of the rectangle, bounds included.\<close>

definition in_x_span :: "Vector2 \<Rightarrow> Rect \<Rightarrow> bool" where
  "in_x_span center rect \<longleftrightarrow>
     real_of_int (rect_left rect) \<le> vec_x center \<and> vec_x center \<le> real_of_int (rect_right rect)"

definition in_y_span :: "Vector2 \<Rightarrow> Rect \<Rightarrow> bool" where
  "in_y_span center rect \<longleftrightarrow>
     real_of_int (rect_top rect) \<le> vec_y center \<and> vec_y center \<le> real_of_int (rect_bottom rect)"

text \<open>
  The specification's \<open>reflect(v, normal) = v - 2 * dot(v, normal) * normal\<close>, and step 2 and 3
  of the motion engine: the four boundary checks on the tentative centre in the order left,
  top, right, bottom, each with its normal; the first one triggered decides.
\<close>

definition mirror :: "Vector2 \<Rightarrow> Vector2 \<Rightarrow> Vector2" where
  "mirror v n = vec_sub v (vec_mul n (2 * vec_dot v n))"

definition boundary_checks :: "Vector2 \<Rightarrow> (bool \<times> Vector2) list" where
  "boundary_checks t =
     [(vec_x t - BALLSIZE < 0, Vector2 1 0),
      (vec_y t - BALLSIZE < 0, Vector2 0 (-1)),
      (vec_x t + BALLSIZE > RECTSIZE * real GRIDX, Vector2 (-1) 0),
      (vec_y t + BALLSIZE > RECTSIZE * real GRIDY, Vector2 0 1)]"

definition first_triggered :: "(bool \<times> Vector2) list \<Rightarrow> Vector2 option" where
  "first_triggered checks = map_option snd (find fst checks)"

definition boundary_step :: "Vector2 \<Rightarrow> Vector2 \<Rightarrow> real \<Rightarrow> Vector2 \<times> Vector2" where
  "boundary_step center direction dt =
     (let t = advance_point center direction BALLSPEED dt
      in case first_triggered (boundary_checks t) of
           None \<Rightarrow> (t, direction)
         | Some n \<Rightarrow> (advance_point center (mirror direction n) BALLSPEED dt, mirror direction n))"

text \<open>
  A grid that \<^verbatim>\<open>run_ball\<close> can index: at least \<open>GRIDY\<close> rows of at least \<open>GRIDX\<close> cells.
\<close>

definition grid_ok :: "grid \<Rightarrow> bool" where
  "grid_ok g \<longleftrightarrow> GRIDY \<le> length g \<and> (\<forall>j<GRIDY. GRIDX \<le> length (g ! j))"

text \<open>
  \<open>hit\<close>: cell \<open>(j, i)\<close> has the state the scan tests and the resolver reports a collision.
  \<open>cell_flip\<close>: a cell is unchanged, or it had the ball's type, collides and now has the
  opposite state. \<open>same_tested\<close>: two cells have the same state and, when that state is the
  ball's type, the same rectangle.
\<close>

definition hit :: "Vector2 \<Rightarrow> bool \<Rightarrow> grid \<Rightarrow> nat \<Rightarrow> nat \<Rightarrow> bool" where
  "hit center ball_type g j i \<longleftrightarrow>
     snd (g ! j ! i) = ball_type \<and> ball_rect_collision center BALLSIZE (fst (g ! j ! i)) \<noteq> None"

definition cell_flip :: "Vector2 \<Rightarrow> bool \<Rightarrow> cell \<Rightarrow> cell \<Rightarrow> bool" where
  "cell_flip center ball_type a b \<longleftrightarrow>
     b = a \<or> (snd a = ball_type \<and> ball_rect_collision center BALLSIZE (fst a) \<noteq> None
              \<and> b = (fst a, \<not> ball_type))"

definition flipped_from :: "Vector2 \<Rightarrow> bool \<Rightarrow> grid \<Rightarrow> grid \<Rightarrow> bool" where
  "flipped_from center ball_type g0 g = list_all2 (list_all2 (cell_flip center ball_type)) g0 g"

definition same_tested :: "bool \<Rightarrow> cell \<Rightarrow> cell \<Rightarrow> bool" where
  "same_tested ball_type a b \<longleftrightarrow> snd b = snd a \<and> (snd a = ball_type \<longrightarrow> fst b = fst a)"

definition agree :: "bool \<Rightarrow> grid \<Rightarrow> grid \<Rightarrow> bool" where
  "agree ball_type g h = list_all2 (list_all2 (same_tested ball_type)) g h"

definition flip_x :: "Vector2 \<Rightarrow> Vector2" where
  "flip_x d = Vector2 (- vec_x d) (vec_y d)"

definition flip_y :: "Vector2 \<Rightarrow> Vector2" where
  "flip_y d = Vector2 (vec_x d) (- vec_y d)"

section \<open>Vectors\<close>

lemma normalize_axis:
  "normalize (Vector2 1 0) = Inr (Vector2 1 0)"
  "normalize (Vector2 (-1) 0) = Inr (Vector2 (-1) 0)"
  "normalize (Vector2 0 1) = Inr (Vector2 0 1)"
  "normalize (Vector2 0 (-1)) = Inr (Vector2 0 (-1))"
  by (simp_all add: normalize_def vec_length_def vec_dot_def vec_div_def)

lemma reflect_axis:
  "reflect v (Vector2 1 0) = Inr (flip_x v)"
  "reflect v (Vector2 (-1) 0) = Inr (flip_x v)"
  "reflect v (Vector2 0 1) = Inr (flip_y v)"
  "reflect v (Vector2 0 (-1)) = Inr (flip_y v)"
  by (simp_all add: reflect_def normalize_axis vec_dot_def vec_sub_def vec_mul_def
      flip_x_def flip_y_def)

lemma mirror_axis:
  "mirror v (Vector2 1 0) = flip_x v"
  "mirror v (Vector2 (-1) 0) = flip_x v"
  "mirror v (Vector2 0 1) = flip_y v"
  "mirror v (Vector2 0 (-1)) = flip_y v"
  by (simp_all add: mirror_def vec_dot_def vec_sub_def vec_mul_def flip_x_def flip_y_def)

lemma vec_length_flip [simp]:
  "vec_length (flip_x v) = vec_length v" "vec_length (flip_y v) = vec_length v"
  by (simp_all add: vec_length_def vec_dot_def flip_x_def flip_y_def)

lemma normalize_unit:
  assumes "normalize v = Inr u"
  shows "vec_dot u u = 1"
proof -
  from assms have nz: "vec_length v \<noteq> 0" and u: "u = vec_div v (vec_length v)"
    by (auto simp: normalize_def Let_def split: if_splits)
  have pos: "0 \<le> vec_dot v v" by (simp add: vec_dot_def)
  have "vec_dot u u = vec_dot v v / (vec_length v)\<^sup>2"
    by (simp add: u vec_dot_def vec_div_def power2_eq_square add_divide_distrib)
  also have "(vec_length v)\<^sup>2 = vec_dot v v"
    using pos by (simp add: vec_length_def)
  finally show ?thesis
    using nz by (simp add: vec_length_def)
qed

lemma normalize_length: "normalize v = Inr u \<Longrightarrow> vec_length u = 1"
  by (simp add: vec_length_def normalize_unit)

text \<open>A reflection, whenever it returns, keeps the length of the vector.\<close>

lemma reflect_length:
  assumes "reflect v n = Inr v'"
  shows "vec_length v' = vec_length v"
proof -
  from assms obtain m where m: "normalize n = Inr m"
    and v': "v' = vec_sub v (vec_mul m (2 * vec_dot v m))"
    by (auto simp: reflect_def split: sum.splits)
  have unit: "vec_dot m m = 1" using m by (rule normalize_unit)
  have "vec_dot v' v' = vec_dot v v - 4 * (vec_dot v m)\<^sup>2 + 4 * (vec_dot v m)\<^sup>2 * vec_dot m m"
    by (simp add: v' vec_dot_def vec_sub_def vec_mul_def power2_eq_square algebra_simps)
  then have "vec_dot v' v' = vec_dot v v" by (simp add: unit)
  then show ?thesis by (simp add: vec_length_def)
qed

lemma sqrt_gt_iff: "0 \<le> r \<Longrightarrow> (r < sqrt a) = (r\<^sup>2 < a)"
  by (metis real_sqrt_less_iff real_sqrt_abs abs_of_nonneg)

lemma abs_le_sqrt_sum: "\<bar>a\<bar> \<le> sqrt (a * a + b * b)"
proof -
  have "\<bar>a\<bar> = sqrt (a * a)" by simp
  also have "\<dots> \<le> sqrt (a * a + b * b)" by (simp only: real_sqrt_le_iff) simp
  finally show ?thesis .
qed

section \<open>The collision resolver\<close>

lemma clamp_max_min: "lo \<le> hi \<Longrightarrow> clamp lo hi v = max lo (min hi v)"
  by (simp add: clamp_def max_def min_def)

lemma collision_normal_cases:
  "ball_rect_collision center radius rect = Some n \<Longrightarrow> n = Vector2 1 0 \<or> n = Vector2 (-1) 0"
  by (auto simp: ball_rect_collision_def Let_def split: if_splits)

lemma reflect_collision_normal:
  "ball_rect_collision center radius rect = Some n \<Longrightarrow> reflect d n = Inr (flip_x d)"
  by (auto dest!: collision_normal_cases simp: reflect_axis)

text \<open>A rectangle that lies further than the radius to the right or to the left of the centre.\<close>

lemma collision_far_left:
  assumes "vec_x center + radius < real_of_int (rect_left rect)" and "0 \<le> radius"
  shows "ball_rect_collision center radius rect = None"
proof -
  let ?dx = "vec_x center - real_of_int (rect_left rect)"
  have "radius < \<bar>?dx\<bar>" using assms by simp
  also have "\<bar>?dx\<bar> \<le> sqrt (?dx * ?dx + b * b)" for b by (rule abs_le_sqrt_sum)
  finally have "radius < sqrt (?dx * ?dx + b * b)" for b .
  moreover have "vec_x center < real_of_int (rect_left rect)" using assms by simp
  ultimately show ?thesis
    by (simp add: ball_rect_collision_def Let_def)
qed

lemma collision_far_right:
  assumes "real_of_int (rect_right rect) + radius < vec_x center" and "0 \<le> radius"
    and "rect_left rect \<le> rect_right rect"
  shows "ball_rect_collision center radius rect = None"
proof -
  let ?dx = "vec_x center - real_of_int (rect_right rect)"
  have "radius < \<bar>?dx\<bar>" using assms by simp
  also have "\<bar>?dx\<bar> \<le> sqrt (?dx * ?dx + b * b)" for b by (rule abs_le_sqrt_sum)
  finally have "radius < sqrt (?dx * ?dx + b * b)" for b .
  moreover have "\<not> vec_x center < real_of_int (rect_left rect)"
    and "real_of_int (rect_right rect) < vec_x center"
    using assms by simp_all
  ultimately show ?thesis
    by (simp add: ball_rect_collision_def Let_def)
qed

text \<open>
  Claim C3. For every centre, radius and rectangle the resolver returns no collision exactly
  when the Euclidean distance from the centre to the nearest point of the rectangle (the
  centre clamped to the rectangle's bounds on each axis) is strictly greater than the
  radius; so a circle that exactly touches the rectangle (distance equal to the radius)
  collides and gets a normal.
\<close>

theorem collision_none_iff_distance:
  "(ball_rect_collision center radius rect = None)
     = (radius < euclidean_distance center (nearest_point center rect))
   \<and> (euclidean_distance center (nearest_point center rect) = radius
          \<longrightarrow> ball_rect_collision center radius rect \<noteq> None)"
proof -
  have iff: "(ball_rect_collision center radius rect = None)
     = (radius < euclidean_distance center (nearest_point center rect))"
    by (auto simp: ball_rect_collision_def Let_def euclidean_distance_def nearest_point_def
        clamp_def power2_eq_square split: if_splits)
  then show ?thesis by auto
qed

text \<open>
  A circle of radius 10 centred at \<open>(31, 33)\<close> touches the corner \<open>(25, 25)\<close> of the cell
  \<open>Rect(0, 0, 25, 25)\<close>: the distance is exactly 10 and the resolver reports a collision.
\<close>

theorem collision_none_iff_distance_witness:
  "euclidean_distance (Vector2 31 33) (nearest_point (Vector2 31 33) (Rect 0 0 25 25)) = 10
   \<and> ball_rect_collision (Vector2 31 33) 10 (Rect 0 0 25 25) \<noteq> None"
proof -
  have d: "euclidean_distance (Vector2 31 33) (nearest_point (Vector2 31 33) (Rect 0 0 25 25)) = 10"
    by (simp add: euclidean_distance_def nearest_point_def clamp_def rect_left_def
        rect_right_def rect_top_def rect_bottom_def)
  from collision_none_iff_distance [of "Vector2 31 33" 10 "Rect 0 0 25 25"]
  show ?thesis by (simp add: d)
qed

text \<open>
  Claim C8 (degenerate-corner fallback). Whenever the resolver reports a collision and the
  centre lies outside both the horizontal and the vertical span of the rectangle, the
  returned normal is exactly \<open>(1, 0)\<close>.
\<close>

theorem collision_corner_fallback:
  assumes "ball_rect_collision center radius rect \<noteq> None"
    and "\<not> in_x_span center rect" and "\<not> in_y_span center rect"
  shows "ball_rect_collision center radius rect = Some (Vector2 1 0)"
  using assms
  by (auto simp: ball_rect_collision_def Let_def in_x_span_def in_y_span_def split: if_splits)

text \<open>
  The centre \<open>(-3, -4)\<close> is above and left of \<open>Rect(0, 0, 25, 25)\<close>, at distance 5 from its
  corner; the centre \<open>(28, 29)\<close> is below and right of it, at distance 5 as well.
\<close>

lemma collision_examples:
  "ball_rect_collision (Vector2 (-3) (-4)) 10 (Rect 0 0 25 25) = Some (Vector2 1 0)"
  "ball_rect_collision (Vector2 28 29) 10 (Rect 0 0 25 25) = Some (Vector2 1 0)"
  "ball_rect_collision (Vector2 10 (-5)) 10 (Rect 0 0 25 25) = Some (Vector2 1 0)"
  "ball_rect_collision (Vector2 10 30) 10 (Rect 0 0 25 25) = Some (Vector2 (-1) 0)"
  "ball_rect_collision (Vector2 (-5) 10) 10 (Rect 0 0 25 25) = Some (Vector2 (-1) 0)"
  "ball_rect_collision (Vector2 30 10) 10 (Rect 0 0 25 25) = Some (Vector2 1 0)"
  by (simp_all add: ball_rect_collision_def rect_left_def rect_right_def rect_top_def
      rect_bottom_def)

theorem collision_corner_fallback_witness:
  "ball_rect_collision (Vector2 (-3) (-4)) 10 (Rect 0 0 25 25) \<noteq> None
   \<and> \<not> in_x_span (Vector2 (-3) (-4)) (Rect 0 0 25 25)
   \<and> \<not> in_y_span (Vector2 (-3) (-4)) (Rect 0 0 25 25)
   \<and> ball_rect_collision (Vector2 (-3) (-4)) 10 (Rect 0 0 25 25) = Some (Vector2 1 0)"
proof -
  have c: "ball_rect_collision (Vector2 (-3) (-4)) 10 (Rect 0 0 25 25) \<noteq> None"
    by (simp add: collision_examples)
  have x: "\<not> in_x_span (Vector2 (-3) (-4)) (Rect 0 0 25 25)"
    by (simp add: in_x_span_def rect_left_def)
  have y: "\<not> in_y_span (Vector2 (-3) (-4)) (Rect 0 0 25 25)"
    by (simp add: in_y_span_def rect_top_def)
  from collision_corner_fallback [OF c x y] c x y show ?thesis by simp
qed

text \<open>
  Claim C10. Every normal the resolver returns lies on the x axis: it is \<open>(1, 0)\<close> or
  \<open>(-1, 0)\<close> and its y component is zero. The two normals built for the top and the bottom
  side are x-axis vectors too: with the centre's x within the horizontal span, a collision
  from above the rectangle returns \<open>(1, 0)\<close> and one from below returns \<open>(-1, 0)\<close>.
\<close>

theorem collision_normal_on_x_axis:
  assumes "ball_rect_collision center radius rect = Some n"
  shows "(n = Vector2 1 0 \<or> n = Vector2 (-1) 0) \<and> vec_y n = 0
    \<and> (in_x_span center rect \<and> vec_y center < real_of_int (rect_top rect) \<longrightarrow> n = Vector2 1 0)
    \<and> (in_x_span center rect \<and> real_of_int (rect_top rect) \<le> vec_y center
         \<and> real_of_int (rect_bottom rect) < vec_y center \<longrightarrow> n = Vector2 (-1) 0)"
  using assms
  by (auto simp: ball_rect_collision_def Let_def in_x_span_def split: if_splits)

theorem collision_normal_on_x_axis_witness:
  "ball_rect_collision (Vector2 10 (-5)) 10 (Rect 0 0 25 25) = Some (Vector2 1 0)
   \<and> in_x_span (Vector2 10 (-5)) (Rect 0 0 25 25)
   \<and> vec_y (Vector2 10 (-5)) < real_of_int (rect_top (Rect 0 0 25 25))
   \<and> ball_rect_collision (Vector2 10 30) 10 (Rect 0 0 25 25) = Some (Vector2 (-1) 0)
   \<and> in_x_span (Vector2 10 30) (Rect 0 0 25 25)
   \<and> real_of_int (rect_top (Rect 0 0 25 25)) \<le> vec_y (Vector2 10 30)
   \<and> real_of_int (rect_bottom (Rect 0 0 25 25)) < vec_y (Vector2 10 30)
   \<and> vec_y (Vector2 1 0) = 0 \<and> vec_y (Vector2 (-1) 0) = 0"
  using collision_normal_on_x_axis [OF collision_examples(3)]
    collision_normal_on_x_axis [OF collision_examples(4)]
  by (simp add: collision_examples in_x_span_def rect_left_def rect_right_def rect_top_def
      rect_bottom_def)

text \<open>
  Claim C2, as stated, fails. The claim reads: on a collision the sign of the returned
  normal matches the side the centre is outside on (component \<open>-1\<close> on the low side,
  \<open>+1\<close> on the high side, per axis), and with the centre's x within the horizontal span
  the normal is the y-axis normal of the top or bottom face. \<open>side_component\<close> is that
  per-axis component.
\<close>

definition side_component :: "real \<Rightarrow> real \<Rightarrow> real \<Rightarrow> real" where
  "side_component lo hi v = (if v < lo then - 1 else if hi < v then 1 else 0)"

text \<open>
  At the centre \<open>(-3, -4)\<close>, outside \<open>Rect(0, 0, 25, 25)\<close> on the low side of both axes, the
  claimed components are \<open>-1\<close> and \<open>-1\<close>, and the resolver returns \<open>(1, 0)\<close>. At the centre
  \<open>(10, -5)\<close>, within the horizontal span and above the top face, the claimed normal is the
  y-axis normal \<open>(0, -1)\<close>, and the resolver returns \<open>(1, 0)\<close>.
\<close>

theorem collision_normal_sign_counterexample:
  "ball_rect_collision (Vector2 (-3) (-4)) 10 (Rect 0 0 25 25) = Some (Vector2 1 0)
   \<and> side_component (real_of_int (rect_left (Rect 0 0 25 25)))
        (real_of_int (rect_right (Rect 0 0 25 25))) (vec_x (Vector2 (-3) (-4))) = - 1
   \<and> side_component (real_of_int (rect_top (Rect 0 0 25 25)))
        (real_of_int (rect_bottom (Rect 0 0 25 25))) (vec_y (Vector2 (-3) (-4))) = - 1
   \<and> ball_rect_collision (Vector2 10 (-5)) 10 (Rect 0 0 25 25) = Some (Vector2 1 0)
   \<and> in_x_span (Vector2 10 (-5)) (Rect 0 0 25 25)
   \<and> side_component (real_of_int (rect_top (Rect 0 0 25 25)))
        (real_of_int (rect_bottom (Rect 0 0 25 25))) (vec_y (Vector2 10 (-5))) = - 1
   \<and> Vector2 1 0 \<noteq> Vector2 0 (- 1)"
  by (simp add: collision_examples side_component_def in_x_span_def rect_left_def
      rect_right_def rect_top_def rect_bottom_def)

text \<open>
  Claim C2, amended. On a collision with the centre's y within the vertical span and its x
  outside the horizontal span, the returned normal is the x-axis normal of the side the
  centre is beyond: \<open>(-1, 0)\<close> left of the rectangle, \<open>(1, 0)\<close> right of it. With the
  centre outside both spans the normal is the fallback \<open>(1, 0)\<close>, whatever the sides.
  (Nothing is said here about a centre whose x lies within the horizontal span.)
\<close>

theorem collision_x_normal_matches_side:
  assumes "ball_rect_collision center radius rect = Some n"
  shows "(in_y_span center rect \<and> vec_x center < real_of_int (rect_left rect)
            \<longrightarrow> n = Vector2 (side_component (real_of_int (rect_left rect))
                               (real_of_int (rect_right rect)) (vec_x center)) 0
                \<and> n = Vector2 (-1) 0)
    \<and> (in_y_span center rect \<and> real_of_int (rect_left rect) \<le> vec_x center
           \<and> real_of_int (rect_right rect) < vec_x center
            \<longrightarrow> n = Vector2 (side_component (real_of_int (rect_left rect))
                               (real_of_int (rect_right rect)) (vec_x center)) 0
                \<and> n = Vector2 1 0)
    \<and> (\<not> in_x_span center rect \<and> \<not> in_y_span center rect \<longrightarrow> n = Vector2 1 0)"
  using assms
  by (auto simp: ball_rect_collision_def Let_def in_x_span_def in_y_span_def side_component_def
      split: if_splits)

theorem collision_x_normal_matches_side_witness:
  "ball_rect_collision (Vector2 (-5) 10) 10 (Rect 0 0 25 25) = Some (Vector2 (-1) 0)
   \<and> in_y_span (Vector2 (-5) 10) (Rect 0 0 25 25)
   \<and> vec_x (Vector2 (-5) 10) < real_of_int (rect_left (Rect 0 0 25 25))
   \<and> ball_rect_collision (Vector2 30 10) 10 (Rect 0 0 25 25) = Some (Vector2 1 0)
   \<and> in_y_span (Vector2 30 10) (Rect 0 0 25 25)
   \<and> real_of_int (rect_left (Rect 0 0 25 25)) \<le> vec_x (Vector2 30 10)
   \<and> real_of_int (rect_right (Rect 0 0 25 25)) < vec_x (Vector2 30 10)
   \<and> ball_rect_collision (Vector2 28 29) 10 (Rect 0 0 25 25) = Some (Vector2 1 0)
   \<and> \<not> in_x_span (Vector2 28 29) (Rect 0 0 25 25)
   \<and> \<not> in_y_span (Vector2 28 29) (Rect 0 0 25 25)"
  using collision_x_normal_matches_side [OF collision_examples(5)]
    collision_x_normal_matches_side [OF collision_examples(6)]
    collision_x_normal_matches_side [OF collision_examples(2)]
  by (simp add: collision_examples in_x_span_def in_y_span_def rect_left_def rect_right_def
      rect_top_def rect_bottom_def)

section \<open>The paused simulation\<close>

lemma GameState_init_eq:
  "GameState_init =
     Inr \<lparr> running = True, paused = True, grid = init_grid,
           dayball = Vector2 (375 / 2) 125, nightball = Vector2 (125 / 2) 125,
           dayball_direction = Vector2 (1 / sqrt 2) (1 / sqrt 2),
           nightball_direction = Vector2 (- 1 / sqrt 2) (- 1 / sqrt 2) \<rparr>"
  by (simp add: GameState_init_def normalize_def vec_length_def vec_dot_def vec_div_def
      GRIDX_def GRIDY_def RECTSIZE_def Let_def)

text \<open>
  Claim C7 (pause invariance). For every state with \<open>paused\<close> set and every \<open>dt\<close>, \<^verbatim>\<open>run\<close>
  returns the state it was given: the grid, both centres and both directions (and the two
  flags) are unchanged.
\<close>

theorem run_paused_noop:
  assumes "paused state"
  shows "run state dt = Inr state"
  using assms by (simp add: run_def)

text \<open>The state built by \<^verbatim>\<open>GameState.__init__\<close> is paused; a tick of 16 ms leaves it as it is.\<close>

theorem run_paused_noop_witness:
  "\<exists>s. GameState_init = Inr s \<and> paused s \<and> run s 16 = Inr s"
proof -
  obtain s where s: "GameState_init = Inr s" and p: "paused s"
    by (simp add: GameState_init_eq)
  from run_paused_noop [OF p, of 16] s p show ?thesis by blast
qed

section \<open>The grid\<close>

lemma grid_set_length [simp]: "length (grid_set g j i c) = length g"
  by (simp add: grid_set_def)

lemma grid_set_row_length [simp]: "length (grid_set g j i c ! k) = length (g ! k)"
  by (cases "j < length g"; cases "k = j") (simp_all add: grid_set_def list_update_beyond)

lemma grid_set_nth:
  "j < length g \<Longrightarrow> i < length (g ! j) \<Longrightarrow>
   grid_set g j i c ! k ! l = (if k = j \<and> l = i then c else g ! k ! l)"
  by (cases "k = j"; cases "l = i") (simp_all add: grid_set_def)

lemma grid_ok_grid_set: "grid_ok g \<Longrightarrow> grid_ok (grid_set g j i c)"
  by (simp add: grid_ok_def)

lemma range10: "[0..<10] = [0, 1, 2, 3, 4, 5, 6, 7, 8, 9::nat]"
  by (simp add: upt_rec)

lemma init_grid_length: "length init_grid = 10"
  by (simp add: init_grid_def GRIDY_def Let_def)

lemma init_grid_row_length: "j < 10 \<Longrightarrow> length (init_grid ! j) = 10"
  by (simp add: init_grid_def GRIDY_def GRIDX_def Let_def)

lemma init_grid_nth:
  assumes "j < 10" and "i < 10"
  shows "init_grid ! j ! i = (Rect (25 * int i) (25 * int j) 25 25, i < 5)"
proof -
  have fl: "\<lfloor>25 * real k\<rfloor> = 25 * int k" for k
  proof -
    have "25 * real k = real_of_int (25 * int k)" by simp
    then show ?thesis by (simp only: floor_of_int)
  qed
  from assms show ?thesis
    by (simp add: init_grid_def GRIDY_def GRIDX_def Let_def rect_move_def py_int_def
        RECTSIZE_def fl)
qed

lemma grid_ok_init_grid: "grid_ok init_grid"
  by (simp add: grid_ok_def GRIDX_def GRIDY_def init_grid_length init_grid_row_length)

section \<open>The cell scan\<close>

text \<open>
  The inner loop in closed form: the first column of the row that is hit, if any, is
  flipped, and the direction is mirrored in x (every normal of the resolver is on the x axis).
\<close>

lemma scan_row_find:
  assumes "j < length g" and "\<forall>i\<in>set cols. i < length (g ! j)"
  shows "scan_row center bt dt j cols (c, d, g) =
     (case find (hit center bt g j) cols of
        None \<Rightarrow> Inr (c, d, g)
      | Some i \<Rightarrow> Inr (advance_point center (flip_x d) BALLSPEED dt, flip_x d,
                       grid_set g j i (fst (g ! j ! i), \<not> bt)))"
  using assms
proof (induction cols)
  case Nil
  then show ?case by simp
next
  case (Cons i cols)
  then show ?case
    by (cases "g ! j ! i")
       (auto simp: grid_get_def hit_def reflect_collision_normal split: option.splits)
qed

lemma scan_rows_Cons_find:
  assumes "j < length g" and "GRIDX \<le> length (g ! j)"
  shows "scan_rows center bt dt (j # rows) (c, d, g) =
     scan_rows center bt dt rows
       (case find (hit center bt g j) [0..<GRIDX] of
          None \<Rightarrow> (c, d, g)
        | Some i \<Rightarrow> (advance_point center (flip_x d) BALLSPEED dt, flip_x d,
                      grid_set g j i (fst (g ! j ! i), \<not> bt)))"
proof -
  have "\<forall>i\<in>set [0..<GRIDX]. i < length (g ! j)"
    using assms(2) by auto
  from scan_row_find [OF assms(1) this]
  show ?thesis by (simp split: option.splits)
qed

lemma find_upt_Some: "find P [0..<n] = Some i \<Longrightarrow> i < n \<and> P i"
  by (auto simp: find_Some_iff)

lemma flipped_from_refl: "flipped_from center bt g g"
  by (simp add: flipped_from_def cell_flip_def list_all2_refl)

lemma flipped_from_grid_set:
  assumes rel: "flipped_from center bt g0 g"
    and j: "j < length g" and i: "i < length (g ! j)"
    and h: "hit center bt g j i"
  shows "flipped_from center bt g0 (grid_set g j i (fst (g ! j ! i), \<not> bt))"
proof -
  from rel have rows: "list_all2 (list_all2 (cell_flip center bt)) g0 g"
    by (simp add: flipped_from_def)
  from rows j have row: "list_all2 (cell_flip center bt) (g0 ! j) (g ! j)"
    by (simp add: list_all2_conv_all_nth)
  from row i have c: "cell_flip center bt (g0 ! j ! i) (g ! j ! i)"
    by (simp add: list_all2_conv_all_nth)
  from h have s: "snd (g ! j ! i) = bt"
    and col: "ball_rect_collision center BALLSIZE (fst (g ! j ! i)) \<noteq> None"
    by (simp_all add: hit_def)
  from c s have same: "g ! j ! i = g0 ! j ! i"
    by (auto simp: cell_flip_def)
  have c': "cell_flip center bt (g0 ! j ! i) (fst (g ! j ! i), \<not> bt)"
    using s col by (simp add: cell_flip_def same)
  have "list_all2 (cell_flip center bt) ((g0 ! j)[i := g0 ! j ! i])
          ((g ! j)[i := (fst (g ! j ! i), \<not> bt)])"
    using row c' by (rule list_all2_update_cong)
  then have row': "list_all2 (cell_flip center bt) (g0 ! j)
          ((g ! j)[i := (fst (g ! j ! i), \<not> bt)])"
    by simp
  have "list_all2 (list_all2 (cell_flip center bt)) (g0[j := g0 ! j])
          (g[j := (g ! j)[i := (fst (g ! j ! i), \<not> bt)]])"
    using rows row' by (rule list_all2_update_cong)
  then show ?thesis
    by (simp add: flipped_from_def grid_set_def)
qed

text \<open>
  The outer loop on a grid it can index: it returns, the direction keeps its length, and
  every cell is as it was or was a hit cell of the ball's type that now has the other state.
\<close>

lemma scan_rows_inv:
  assumes "grid_ok g" and "\<forall>j\<in>set rows. j < GRIDY" and "flipped_from center bt g0 g"
  shows "\<exists>c' d' g'. scan_rows center bt dt rows (c, d, g) = Inr (c', d', g')
            \<and> vec_length d' = vec_length d \<and> grid_ok g' \<and> flipped_from center bt g0 g'"
  using assms
proof (induction rows arbitrary: c d g)
  case Nil
  then show ?case by simp
next
  case (Cons j rows)
  from Cons.prems have j: "j < length g" and w: "GRIDX \<le> length (g ! j)"
    by (auto simp: grid_ok_def)
  show ?case
  proof (cases "find (hit center bt g j) [0..<GRIDX]")
    case None
    with Cons j w show ?thesis
      by (simp add: scan_rows_Cons_find del: scan_rows.simps)
  next
    case (Some i)
    then have i: "i < length (g ! j)" and h: "hit center bt g j i"
      using w by (auto dest!: find_upt_Some)
    let ?g = "grid_set g j i (fst (g ! j ! i), \<not> bt)"
    have "grid_ok ?g" using Cons.prems(1) by (rule grid_ok_grid_set)
    moreover have "\<forall>j\<in>set rows. j < GRIDY" using Cons.prems(2) by simp
    moreover have "flipped_from center bt g0 ?g"
      using Cons.prems(3) j i h by (rule flipped_from_grid_set)
    ultimately have "\<exists>c' d' g'. scan_rows center bt dt rows
          (advance_point center (flip_x d) BALLSPEED dt, flip_x d, ?g) = Inr (c', d', g')
            \<and> vec_length d' = vec_length (flip_x d) \<and> grid_ok g' \<and> flipped_from center bt g0 g'"
      by (rule Cons.IH)
    with Some j w show ?thesis
      by (simp add: scan_rows_Cons_find del: scan_rows.simps)
  qed
qed

text \<open>When no cell is hit, the scan returns the state it was given.\<close>

lemma scan_rows_no_hit:
  assumes "grid_ok g" and "\<forall>j\<in>set rows. j < GRIDY"
    and "\<forall>j<GRIDY. \<forall>i<GRIDX. \<not> hit center bt g j i"
  shows "scan_rows center bt dt rows (c, d, g) = Inr (c, d, g)"
  using assms(2)
proof (induction rows)
  case Nil
  then show ?case by simp
next
  case (Cons j rows)
  from Cons.prems assms(1) have j: "j < length g" "j < GRIDY" and w: "GRIDX \<le> length (g ! j)"
    by (auto simp: grid_ok_def)
  have "find (hit center bt g j) [0..<GRIDX] = None"
    using assms(3) j by (simp add: find_None_iff)
  with Cons j w show ?case
    by (simp add: scan_rows_Cons_find del: scan_rows.simps)
qed

text \<open>
  Two grids that agree on the states, and on the rectangles of the cells of the ball's
  type, give the same scan: same centre, same direction, and grids that agree again.
\<close>

lemma agree_nth:
  assumes "agree bt g h" and "j < length g" and "i < length (g ! j)"
  shows "same_tested bt (g ! j ! i) (h ! j ! i)"
proof -
  from assms(1,2) have "list_all2 (same_tested bt) (g ! j) (h ! j)"
    by (simp add: agree_def list_all2_conv_all_nth)
  with assms(3) show ?thesis by (simp add: list_all2_conv_all_nth)
qed

lemma agree_lengths:
  assumes "agree bt g h"
  shows "length h = length g" and "j < length g \<Longrightarrow> length (h ! j) = length (g ! j)"
  using assms by (simp_all add: agree_def list_all2_conv_all_nth)

lemma agree_hit:
  assumes "agree bt g h" and "j < length g" and "i < length (g ! j)"
  shows "hit center bt h j i = hit center bt g j i"
  using agree_nth [OF assms] by (auto simp: hit_def same_tested_def)

lemma agree_grid_set:
  assumes a: "agree bt g h" and j: "j < length g" and i: "i < length (g ! j)"
    and s: "snd (g ! j ! i) = bt"
  shows "agree bt (grid_set g j i (fst (g ! j ! i), \<not> bt))
                  (grid_set h j i (fst (h ! j ! i), \<not> bt))"
proof -
  from a have rows: "list_all2 (list_all2 (same_tested bt)) g h"
    by (simp add: agree_def)
  from rows j have row: "list_all2 (same_tested bt) (g ! j) (h ! j)"
    by (simp add: list_all2_conv_all_nth)
  from agree_nth [OF a j i] s have "fst (h ! j ! i) = fst (g ! j ! i)"
    by (simp add: same_tested_def)
  then have "same_tested bt (fst (g ! j ! i), \<not> bt) (fst (h ! j ! i), \<not> bt)"
    by (simp add: same_tested_def)
  with row have "list_all2 (same_tested bt) ((g ! j)[i := (fst (g ! j ! i), \<not> bt)])
                   ((h ! j)[i := (fst (h ! j ! i), \<not> bt)])"
    by (rule list_all2_update_cong)
  with rows have "list_all2 (list_all2 (same_tested bt))
                   (g[j := (g ! j)[i := (fst (g ! j ! i), \<not> bt)]])
                   (h[j := (h ! j)[i := (fst (h ! j ! i), \<not> bt)]])"
    by (rule list_all2_update_cong)
  then show ?thesis by (simp add: agree_def grid_set_def)
qed

section \<open>The per-ball advance\<close>

lemma boundary_normal_cases:
  "boundary_normal t =
     (if vec_x t - BALLSIZE < 0 then Inr (Some (Vector2 1 0))
      else if vec_y t - BALLSIZE < 0 then Inr (Some (Vector2 0 (-1)))
      else if vec_x t + BALLSIZE > RECTSIZE * real GRIDX then Inr (Some (Vector2 (-1) 0))
      else if vec_y t + BALLSIZE > RECTSIZE * real GRIDY then Inr (Some (Vector2 0 1))
      else Inr None)"
  by (simp add: boundary_normal_def normalize_axis)

text \<open>The boundary part of \<^verbatim>\<open>run_ball\<close> is the specification's \<open>boundary_step\<close>.\<close>

lemma run_ball_boundary_step:
  "run_ball center direction g bt dt =
     scan_rows center bt dt [0..<GRIDY]
       (fst (boundary_step center direction dt), snd (boundary_step center direction dt), g)"
  by (simp add: run_ball_def boundary_normal_cases boundary_step_def boundary_checks_def
      first_triggered_def Let_def reflect_axis mirror_axis)

lemma boundary_step_length:
  "vec_length (snd (boundary_step center direction dt)) = vec_length direction"
  by (simp add: boundary_step_def boundary_checks_def first_triggered_def Let_def mirror_axis)

lemma run_ball_inv:
  assumes "grid_ok g"
  shows "\<exists>c' d' g'. run_ball center direction g bt dt = Inr (c', d', g')
            \<and> vec_length d' = vec_length direction \<and> grid_ok g' \<and> flipped_from center bt g g'"
proof -
  have rows: "\<forall>j\<in>set [0..<GRIDY]. j < GRIDY" by simp
  let ?bs = "boundary_step center direction dt"
  have "\<exists>c' d' g'. scan_rows center bt dt [0..<GRIDY] (fst ?bs, snd ?bs, g) = Inr (c', d', g')
            \<and> vec_length d' = vec_length (snd ?bs) \<and> grid_ok g' \<and> flipped_from center bt g g'"
    using assms rows flipped_from_refl by (rule scan_rows_inv)
  then show ?thesis
    by (simp add: run_ball_boundary_step boundary_step_length)
qed

text \<open>
  The same facts for any grid on which the scan returns (a grid with short rows can still
  be scanned when a hit ends each short row early).
\<close>

lemma scan_row_returns:
  assumes "scan_row center bt dt j cols (c, d, g) = Inr (c', d', g')"
    and "flipped_from center bt g0 g"
  shows "vec_length d' = vec_length d \<and> flipped_from center bt g0 g'"
  using assms
proof (induction cols)
  case Nil
  then show ?case by simp
next
  case (Cons i cols)
  from Cons.prems(1) have j: "j < length g" and i: "i < length (g ! j)"
    by (auto simp: grid_get_def split: if_splits)
  show ?case
  proof (cases "hit center bt g j i")
    case False
    with Cons.prems(1) j i have "scan_row center bt dt j cols (c, d, g) = Inr (c', d', g')"
      by (cases "g ! j ! i") (auto simp: grid_get_def hit_def split: if_splits option.splits)
    with Cons.IH Cons.prems(2) show ?thesis by simp
  next
    case True
    then obtain n where n: "ball_rect_collision center BALLSIZE (fst (g ! j ! i)) = Some n"
      and s: "snd (g ! j ! i) = bt"
      by (auto simp: hit_def)
    from Cons.prems(1) j i n s
    have "d' = flip_x d" and "g' = grid_set g j i (fst (g ! j ! i), \<not> bt)"
      by (cases "g ! j ! i"; auto simp: grid_get_def reflect_collision_normal)+
    with flipped_from_grid_set [OF Cons.prems(2) j i True] show ?thesis by simp
  qed
qed

lemma scan_rows_returns:
  assumes "scan_rows center bt dt rows (c, d, g) = Inr (c', d', g')"
    and "flipped_from center bt g0 g"
  shows "vec_length d' = vec_length d \<and> flipped_from center bt g0 g'"
  using assms
proof (induction rows arbitrary: c d g)
  case Nil
  then show ?case by simp
next
  case (Cons j rows)
  from Cons.prems(1) obtain c1 d1 g1
    where row: "scan_row center bt dt j [0..<GRIDX] (c, d, g) = Inr (c1, d1, g1)"
      and rest: "scan_rows center bt dt rows (c1, d1, g1) = Inr (c', d', g')"
    by (auto split: sum.splits)
  from scan_row_returns [OF row Cons.prems(2)]
  have "vec_length d1 = vec_length d" and "flipped_from center bt g0 g1" by simp_all
  with Cons.IH [OF rest] show ?case by simp
qed

lemma run_ball_returns:
  assumes "run_ball center direction g bt dt = Inr (c', d', g')"
  shows "vec_length d' = vec_length direction \<and> flipped_from center bt g g'"
proof -
  from assms have "scan_rows center bt dt [0..<GRIDY]
      (fst (boundary_step center direction dt), snd (boundary_step center direction dt), g)
       = Inr (c', d', g')"
    by (simp only: run_ball_boundary_step)
  from scan_rows_returns [OF this flipped_from_refl] show ?thesis
    by (simp add: boundary_step_length)
qed

lemma scan_row_agree:
  assumes "scan_row center bt dt j cols (c, d, g) = Inr (c', d', g')" and "agree bt g h"
  shows "\<exists>h'. scan_row center bt dt j cols (c, d, h) = Inr (c', d', h') \<and> agree bt g' h'"
  using assms
proof (induction cols)
  case Nil
  then show ?case by simp
next
  case (Cons i cols)
  from Cons.prems(1) have j: "j < length g" and i: "i < length (g ! j)"
    by (auto simp: grid_get_def split: if_splits)
  from agree_lengths [OF Cons.prems(2)] j i
  have jh: "j < length h" and ih: "i < length (h ! j)" by simp_all
  from agree_nth [OF Cons.prems(2) j i]
  have st: "snd (h ! j ! i) = snd (g ! j ! i)"
    and re: "snd (g ! j ! i) = bt \<Longrightarrow> fst (h ! j ! i) = fst (g ! j ! i)"
    by (simp_all add: same_tested_def)
  show ?case
  proof (cases "hit center bt g j i")
    case False
    with Cons.prems(1) j i have "scan_row center bt dt j cols (c, d, g) = Inr (c', d', g')"
      by (cases "g ! j ! i") (auto simp: grid_get_def hit_def split: if_splits option.splits)
    from Cons.IH [OF this Cons.prems(2)] obtain h'
      where h': "scan_row center bt dt j cols (c, d, h) = Inr (c', d', h')" "agree bt g' h'"
      by blast
    from False agree_hit [OF Cons.prems(2) j i] have "\<not> hit center bt h j i" by simp
    with h' jh ih show ?thesis
      by (cases "h ! j ! i") (auto simp: grid_get_def hit_def split: option.splits)
  next
    case True
    then obtain n where n: "ball_rect_collision center BALLSIZE (fst (g ! j ! i)) = Some n"
      and s: "snd (g ! j ! i) = bt"
      by (auto simp: hit_def)
    from Cons.prems(1) j i n s
    have res: "c' = advance_point center (flip_x d) BALLSPEED dt" "d' = flip_x d"
      "g' = grid_set g j i (fst (g ! j ! i), \<not> bt)"
      by (cases "g ! j ! i"; auto simp: grid_get_def reflect_collision_normal)+
    from n s st re jh ih
    have "scan_row center bt dt j (i # cols) (c, d, h)
        = Inr (advance_point center (flip_x d) BALLSPEED dt, flip_x d,
               grid_set h j i (fst (h ! j ! i), \<not> bt))"
      by (cases "h ! j ! i") (auto simp: grid_get_def reflect_collision_normal)
    with agree_grid_set [OF Cons.prems(2) j i s] res show ?thesis by simp
  qed
qed

lemma scan_rows_agree_returns:
  assumes "scan_rows center bt dt rows (c, d, g) = Inr (c', d', g')" and "agree bt g h"
  shows "\<exists>h'. scan_rows center bt dt rows (c, d, h) = Inr (c', d', h') \<and> agree bt g' h'"
  using assms
proof (induction rows arbitrary: c d g h)
  case Nil
  then show ?case by simp
next
  case (Cons j rows)
  from Cons.prems(1) obtain c1 d1 g1
    where row: "scan_row center bt dt j [0..<GRIDX] (c, d, g) = Inr (c1, d1, g1)"
      and rest: "scan_rows center bt dt rows (c1, d1, g1) = Inr (c', d', g')"
    by (auto split: sum.splits)
  from scan_row_agree [OF row Cons.prems(2)] obtain h1
    where h1: "scan_row center bt dt j [0..<GRIDX] (c, d, h) = Inr (c1, d1, h1)"
      and a1: "agree bt g1 h1"
    by blast
  from Cons.IH [OF rest a1] h1 show ?case by simp
qed

lemma run_ball_agree:
  assumes "run_ball center direction g bt dt = Inr (c', d', g')" and "agree bt g h"
  shows "\<exists>h'. run_ball center direction h bt dt = Inr (c', d', h') \<and> agree bt g' h'"
  using assms by (simp only: run_ball_boundary_step) (rule scan_rows_agree_returns)

lemma flipped_from_nth:
  assumes "flipped_from center bt g g'" and "j < length g" and "i < length (g ! j)"
  shows "cell_flip center bt (g ! j ! i) (g' ! j ! i)"
proof -
  from assms(1,2) have "list_all2 (cell_flip center bt) (g ! j) (g' ! j)"
    by (simp add: flipped_from_def list_all2_conv_all_nth)
  with assms(3) show ?thesis by (simp add: list_all2_conv_all_nth)
qed

lemma no_hit_from_tested:
  assumes "\<forall>j<GRIDY. \<forall>i<GRIDX. snd (g ! j ! i) = ball_type
              \<longrightarrow> ball_rect_collision center BALLSIZE (fst (g ! j ! i)) = None"
  shows "\<forall>j<GRIDY. \<forall>i<GRIDX. \<not> hit center ball_type g j i"
proof (intro allI impI)
  fix j i
  assume j: "j < GRIDY" and i: "i < GRIDX"
  show "\<not> hit center ball_type g j i"
  proof
    assume h: "hit center ball_type g j i"
    from h have s: "snd (g ! j ! i) = ball_type"
      unfolding hit_def by (rule conjunct1)
    from h have c: "ball_rect_collision center BALLSIZE (fst (g ! j ! i)) \<noteq> None"
      unfolding hit_def by (rule conjunct2)
    from c assms [rule_format, OF j i s] show False by (rule notE)
  qed
qed

lemma tested_from_no_hit:
  assumes "\<And>j i. j < GRIDY \<Longrightarrow> i < GRIDX \<Longrightarrow> \<not> hit center ball_type g j i"
  shows "\<forall>j<GRIDY. \<forall>i<GRIDX. snd (g ! j ! i) = ball_type
              \<longrightarrow> ball_rect_collision center BALLSIZE (fst (g ! j ! i)) = None"
proof (intro allI impI)
  fix j i
  assume j: "j < GRIDY" and i: "i < GRIDX" and s: "snd (g ! j ! i) = ball_type"
  show "ball_rect_collision center BALLSIZE (fst (g ! j ! i)) = None"
  proof (rule ccontr)
    assume "ball_rect_collision center BALLSIZE (fst (g ! j ! i)) \<noteq> None"
    with s have "hit center ball_type g j i" unfolding hit_def by (rule conjI)
    with assms [OF j i] show False by (rule notE)
  qed
qed

section \<open>Runs on the initial grid\<close>

lemma init_grid_no_hit_True:
  assumes "135 < vec_x center" and "j < GRIDY" and "i < GRIDX"
  shows "\<not> hit center True init_grid j i"
proof (cases "i < 5")
  case True
  have "ball_rect_collision center BALLSIZE (Rect (25 * int i) (25 * int j) 25 25) = None"
    using assms(1) True
    by (intro collision_far_right) (simp_all add: rect_right_def rect_left_def BALLSIZE_def)
  with assms show ?thesis by (simp add: hit_def init_grid_nth GRIDX_def GRIDY_def)
next
  case False
  with assms show ?thesis by (simp add: hit_def init_grid_nth GRIDX_def GRIDY_def)
qed

lemma init_grid_no_hit_False:
  assumes "vec_x center < 115" and "j < GRIDY" and "i < GRIDX"
  shows "\<not> hit center False init_grid j i"
proof (cases "i < 5")
  case True
  with assms show ?thesis by (simp add: hit_def init_grid_nth GRIDX_def GRIDY_def)
next
  case False
  have "ball_rect_collision center BALLSIZE (Rect (25 * int i) (25 * int j) 25 25) = None"
    using assms(1) False
    by (intro collision_far_left) (simp_all add: rect_left_def BALLSIZE_def)
  with assms show ?thesis by (simp add: hit_def init_grid_nth GRIDX_def GRIDY_def)
qed

text \<open>
  The day ball at \<open>(134, 12)\<close> moving left: cell \<open>(0, 4)\<close>, a day cell 9 units to its left,
  is the only cell hit.
\<close>

lemma run_ball_one_flip:
  "run_ball (Vector2 134 12) (Vector2 (-1) 0) init_grid True 1 =
     Inr (Vector2 (269 / 2) 12, Vector2 1 0, grid_set init_grid 0 4 (Rect 100 0 25 25, False))"
  apply (simp add: run_ball_def advance_point_def vec_add_def vec_mul_def BALLSPEED_def
      boundary_normal_cases BALLSIZE_def RECTSIZE_def GRIDX_def GRIDY_def range10
      del: scan_rows.simps scan_row.simps)
  apply (simp add: scan_rows_Cons_find init_grid_length init_grid_row_length GRIDX_def range10
      grid_set_nth hit_def init_grid_nth ball_rect_collision_def Let_def rect_left_def
      rect_right_def rect_top_def rect_bottom_def BALLSIZE_def sqrt_gt_iff flip_x_def
      advance_point_def vec_add_def vec_mul_def BALLSPEED_def
      del: scan_rows.simps(2) scan_row.simps)
  done

text \<open>
  The day ball at \<open>(130, 25)\<close> moving left: the day cells \<open>(0, 4)\<close> and \<open>(1, 4)\<close> are both
  5 units to its left (its y is on the edge the two rows share).
\<close>

lemma run_ball_two_flips:
  "run_ball (Vector2 130 25) (Vector2 (-1) 0) init_grid True 1 =
     Inr (Vector2 (259 / 2) 25, Vector2 (-1) 0,
          grid_set (grid_set init_grid 0 4 (Rect 100 0 25 25, False)) 1 4
            (Rect 100 25 25 25, False))"
  apply (simp add: run_ball_def advance_point_def vec_add_def vec_mul_def BALLSPEED_def
      boundary_normal_cases BALLSIZE_def RECTSIZE_def GRIDX_def GRIDY_def range10
      del: scan_rows.simps scan_row.simps)
  apply (simp add: scan_rows_Cons_find init_grid_length init_grid_row_length GRIDX_def range10
      grid_set_nth hit_def init_grid_nth ball_rect_collision_def Let_def rect_left_def
      rect_right_def rect_top_def rect_bottom_def BALLSIZE_def sqrt_gt_iff flip_x_def
      advance_point_def vec_add_def vec_mul_def BALLSPEED_def
      del: scan_rows.simps(2) scan_row.simps)
  done

lemma init_grid_cells:
  "init_grid ! 0 ! 4 = (Rect 100 0 25 25, True)"
  "init_grid ! 1 ! 4 = (Rect 100 25 25 25, True)"
  "init_grid ! 0 ! 5 = (Rect 125 0 25 25, False)"
  by (simp_all add: init_grid_nth)

lemma sqrt2_bounds: "1414 / 1000 < sqrt 2" "sqrt 2 < 1415 / 1000"
proof -
  show "1414 / 1000 < sqrt 2"
    by (rule real_less_rsqrt) (simp add: power2_eq_square)
  show "sqrt 2 < 1415 / 1000"
    by (rule real_less_lsqrt) (simp_all add: power2_eq_square)
qed

lemma half_step_bounds: "353 / 1000 < 1 / sqrt 2 * (1 / 2)" "1 / sqrt 2 * (1 / 2) < 354 / 1000"
  using sqrt2_bounds by (simp_all add: field_simps)

section \<open>Claims about the per-ball advance\<close>

text \<open>
  Claim C4. In every per-ball advance the boundary part is the specification's
  \<open>boundary_step\<close>: the four checks on the tentative centre (with the ball's radius) are
  tried in the order left, top, right, bottom, with the normals \<open>(1, 0)\<close>, \<open>(0, -1)\<close>,
  \<open>(-1, 0)\<close>, \<open>(0, 1)\<close>; the first one triggered decides, the direction is mirrored across
  its normal and the position is recomputed from the original centre along the new
  direction with the same \<open>dt\<close> and speed; no further boundary check follows, only the
  cell scan. When no tested cell collides, the advance returns exactly that position and
  direction, and the grid unchanged.
\<close>

theorem run_ball_boundary_priority:
  "run_ball center direction g ball_type dt =
     scan_rows center ball_type dt [0..<GRIDY]
       (fst (boundary_step center direction dt), snd (boundary_step center direction dt), g)
   \<and> (grid_ok g
        \<and> (\<forall>j<GRIDY. \<forall>i<GRIDX. snd (g ! j ! i) = ball_type
              \<longrightarrow> ball_rect_collision center BALLSIZE (fst (g ! j ! i)) = None)
      \<longrightarrow> run_ball center direction g ball_type dt =
            Inr (fst (boundary_step center direction dt),
                 snd (boundary_step center direction dt), g))"
proof (intro conjI impI)
  show "run_ball center direction g ball_type dt =
     scan_rows center ball_type dt [0..<GRIDY]
       (fst (boundary_step center direction dt), snd (boundary_step center direction dt), g)"
    by (rule run_ball_boundary_step)
next
  assume a: "grid_ok g
        \<and> (\<forall>j<GRIDY. \<forall>i<GRIDX. snd (g ! j ! i) = ball_type
              \<longrightarrow> ball_rect_collision center BALLSIZE (fst (g ! j ! i)) = None)"
  then have ok: "grid_ok g" by (rule conjunct1)
  from a have "\<forall>j<GRIDY. \<forall>i<GRIDX. snd (g ! j ! i) = ball_type
              \<longrightarrow> ball_rect_collision center BALLSIZE (fst (g ! j ! i)) = None"
    by (rule conjunct2)
  then have no: "\<forall>j<GRIDY. \<forall>i<GRIDX. \<not> hit center ball_type g j i"
    by (rule no_hit_from_tested)
  have rows: "\<forall>j\<in>set [0..<GRIDY]. j < GRIDY" by simp
  from scan_rows_no_hit [OF ok rows no]
  show "run_ball center direction g ball_type dt =
            Inr (fst (boundary_step center direction dt),
                 snd (boundary_step center direction dt), g)"
    by (simp only: run_ball_boundary_step)
qed

text \<open>
  The night ball at \<open>(10.2, 10.1)\<close> with direction \<open>(-0.6, -0.8)\<close>: the tentative centre
  \<open>(9.9, 9.7)\<close> crosses the left and the top edge; only the left one is handled, so the
  direction becomes \<open>(0.6, -0.8)\<close> and the centre \<open>(10.5, 9.7)\<close>, still across the top edge.
\<close>

theorem run_ball_boundary_priority_witness:
  "grid_ok init_grid
   \<and> boundary_checks (advance_point (Vector2 (51 / 5) (101 / 10)) (Vector2 (- 3 / 5) (- 4 / 5))
        BALLSPEED 1)
      = [(True, Vector2 1 0), (True, Vector2 0 (- 1)), (False, Vector2 (- 1) 0),
         (False, Vector2 0 1)]
   \<and> run_ball (Vector2 (51 / 5) (101 / 10)) (Vector2 (- 3 / 5) (- 4 / 5)) init_grid False 1
      = Inr (Vector2 (21 / 2) (97 / 10), Vector2 (3 / 5) (- 4 / 5), init_grid)"
proof -
  let ?c = "Vector2 (51 / 5) (101 / 10)"
  let ?d = "Vector2 (- 3 / 5) (- 4 / 5)"
  have checks: "boundary_checks (advance_point ?c ?d BALLSPEED 1)
      = [(True, Vector2 1 0), (True, Vector2 0 (- 1)), (False, Vector2 (- 1) 0),
         (False, Vector2 0 1)]"
    by (simp add: boundary_checks_def advance_point_def vec_add_def vec_mul_def BALLSPEED_def
        BALLSIZE_def RECTSIZE_def GRIDX_def GRIDY_def)
  have step: "boundary_step ?c ?d 1 = (Vector2 (21 / 2) (97 / 10), Vector2 (3 / 5) (- 4 / 5))"
    by (simp add: boundary_step_def Let_def boundary_checks_def first_triggered_def mirror_axis
        flip_x_def advance_point_def vec_add_def vec_mul_def BALLSPEED_def BALLSIZE_def
        RECTSIZE_def GRIDX_def GRIDY_def)
  have far: "\<forall>j<GRIDY. \<forall>i<GRIDX. snd (init_grid ! j ! i) = False
              \<longrightarrow> ball_rect_collision ?c BALLSIZE (fst (init_grid ! j ! i)) = None"
  proof (rule tested_from_no_hit)
    fix j i
    assume "j < GRIDY" and "i < GRIDX"
    moreover have "vec_x ?c < 115" by simp
    ultimately show "\<not> hit ?c False init_grid j i"
      by (intro init_grid_no_hit_False)
  qed
  have "run_ball ?c ?d init_grid False 1 = Inr (fst (boundary_step ?c ?d 1),
          snd (boundary_step ?c ?d 1), init_grid)"
    using run_ball_boundary_priority [of ?c ?d init_grid False 1, THEN conjunct2, THEN mp,
        OF conjI, OF grid_ok_init_grid far] .
  then have run: "run_ball ?c ?d init_grid False 1 =
      Inr (Vector2 (21 / 2) (97 / 10), Vector2 (3 / 5) (- 4 / 5), init_grid)"
    unfolding step by simp
  show ?thesis
    by (rule conjI [OF grid_ok_init_grid conjI [OF checks run]])
qed

text \<open>
  Claim C6. The direction stays of unit length. The two initial directions have length 1;
  a reflection that returns keeps the length; and a per-ball advance started with a unit
  direction returns a unit direction, whatever boundary and cell reflections it made (on a
  grid it can index it does return). Lengths are exact here: floats are modelled as reals.
\<close>

theorem run_ball_unit_direction:
  "(\<exists>s. GameState_init = Inr s \<and> vec_length (dayball_direction s) = 1
         \<and> vec_length (nightball_direction s) = 1)
   \<and> (vec_length v = 1 \<and> reflect v n = Inr v' \<longrightarrow> vec_length v' = 1)
   \<and> (vec_length direction = 1 \<and> run_ball center direction g ball_type dt = Inr (c', d', g')
        \<longrightarrow> vec_length d' = 1)
   \<and> (vec_length direction = 1 \<and> grid_ok g
        \<longrightarrow> (\<exists>c d h. run_ball center direction g ball_type dt = Inr (c, d, h)
                \<and> vec_length d = 1))"
proof (intro conjI impI)
  show "\<exists>s. GameState_init = Inr s \<and> vec_length (dayball_direction s) = 1
         \<and> vec_length (nightball_direction s) = 1"
    by (simp add: GameState_init_eq vec_length_def vec_dot_def)
next
  assume "vec_length v = 1 \<and> reflect v n = Inr v'"
  then show "vec_length v' = 1" by (auto dest: reflect_length)
next
  assume "vec_length direction = 1
    \<and> run_ball center direction g ball_type dt = Inr (c', d', g')"
  then show "vec_length d' = 1" by (auto dest: run_ball_returns)
next
  assume "vec_length direction = 1 \<and> grid_ok g"
  with run_ball_inv [of g center direction ball_type dt]
  show "\<exists>c d h. run_ball center direction g ball_type dt = Inr (c, d, h) \<and> vec_length d = 1"
    by auto
qed

theorem run_ball_unit_direction_witness:
  "vec_length (Vector2 (-1) 0) = 1 \<and> grid_ok init_grid
   \<and> reflect (Vector2 (-1) 0) (Vector2 1 0) = Inr (Vector2 1 0)
   \<and> run_ball (Vector2 134 12) (Vector2 (-1) 0) init_grid True 1 =
       Inr (Vector2 (269 / 2) 12, Vector2 1 0, grid_set init_grid 0 4 (Rect 100 0 25 25, False))
   \<and> vec_length (Vector2 1 0) = 1"
proof -
  have l: "vec_length (Vector2 (-1) 0) = 1" by (simp add: vec_length_def vec_dot_def)
  have r: "reflect (Vector2 (-1) 0) (Vector2 1 0) = Inr (Vector2 1 0)"
    by (simp add: reflect_axis flip_x_def)
  from run_ball_unit_direction [of "Vector2 (-1) 0" "Vector2 1 0" "Vector2 1 0" "Vector2 (-1) 0"
      "Vector2 134 12" init_grid True 1 "Vector2 (269 / 2) 12" "Vector2 1 0"
      "grid_set init_grid 0 4 (Rect 100 0 25 25, False)"]
    l r run_ball_one_flip grid_ok_init_grid
  show ?thesis by simp
qed

text \<open>
  Claim C9 (first tick of the day ball). On the state built by \<^verbatim>\<open>GameState.__init__\<close> the
  day ball is at \<open>(187.5, 125)\<close> with direction \<open>(1, 1)\<close> normalised. One advance with
  \<open>dt = 1\<close> (speed 0.5) triggers no boundary check and hits no cell: it returns the
  tentative centre, within 0.001 of \<open>(187.854, 125.354)\<close>, the direction unchanged and the
  grid unchanged.
\<close>

theorem first_tick_day_ball:
  "\<exists>s c'. GameState_init = Inr s
     \<and> dayball s = Vector2 (375 / 2) 125
     \<and> dayball_direction s = Vector2 (1 / sqrt 2) (1 / sqrt 2)
     \<and> boundary_normal (advance_point (dayball s) (dayball_direction s) BALLSPEED 1) = Inr None
     \<and> list_all (\<lambda>j. list_all (\<lambda>i. \<not> hit (dayball s) True (grid s) j i) [0..<GRIDX]) [0..<GRIDY]
     \<and> run_ball (dayball s) (dayball_direction s) (grid s) True 1
         = Inr (c', dayball_direction s, grid s)
     \<and> c' = advance_point (dayball s) (dayball_direction s) BALLSPEED 1
     \<and> \<bar>vec_x c' - 187854 / 1000\<bar> < 1 / 1000 \<and> \<bar>vec_y c' - 125354 / 1000\<bar> < 1 / 1000"
proof -
  let ?c = "Vector2 (375 / 2) 125"
  let ?d = "Vector2 (1 / sqrt 2) (1 / sqrt 2)"
  let ?t = "advance_point ?c ?d BALLSPEED 1"
  define h where "h = 1 / sqrt 2 * (1 / 2)"
  have hb: "353 / 1000 < h" "h < 354 / 1000"
    unfolding h_def by (rule half_step_bounds)+
  have t: "?t = Vector2 (375 / 2 + h) (125 + h)"
    by (simp add: advance_point_def vec_add_def vec_mul_def BALLSPEED_def h_def)
  have bn: "boundary_normal ?t = Inr None"
    unfolding t using hb
    by (simp add: boundary_normal_cases BALLSIZE_def RECTSIZE_def GRIDX_def GRIDY_def)
  have no: "\<forall>j<GRIDY. \<forall>i<GRIDX. \<not> hit ?c True init_grid j i"
    using init_grid_no_hit_True [of ?c] by simp
  then have la: "list_all (\<lambda>j. list_all (\<lambda>i. \<not> hit ?c True init_grid j i) [0..<GRIDX]) [0..<GRIDY]"
    by (simp add: list_all_iff)
  have rows: "\<forall>j\<in>set [0..<GRIDY]. j < GRIDY" by simp
  have "run_ball ?c ?d init_grid True 1 = scan_rows ?c True 1 [0..<GRIDY] (?t, ?d, init_grid)"
    unfolding run_ball_def Let_def bn by simp
  also have "\<dots> = Inr (?t, ?d, init_grid)"
    using grid_ok_init_grid rows no by (rule scan_rows_no_hit)
  finally have run: "run_ball ?c ?d init_grid True 1 = Inr (?t, ?d, init_grid)" .
  have ax: "\<bar>vec_x ?t - 187854 / 1000\<bar> < 1 / 1000" and ay: "\<bar>vec_y ?t - 125354 / 1000\<bar> < 1 / 1000"
    unfolding t using hb by (simp_all add: abs_less_iff)
  let ?s = "\<lparr> running = True, paused = True, grid = init_grid,
           dayball = Vector2 (375 / 2) 125, nightball = Vector2 (125 / 2) 125,
           dayball_direction = Vector2 (1 / sqrt 2) (1 / sqrt 2),
           nightball_direction = Vector2 (- 1 / sqrt 2) (- 1 / sqrt 2) \<rparr>"
  have s: "GameState_init = Inr ?s" by (rule GameState_init_eq)
  have sel: "dayball ?s = ?c" "dayball_direction ?s = ?d" "grid ?s = init_grid"
    by simp_all
  show ?thesis
    apply (rule exI [of _ ?s])
    apply (rule exI [of _ ?t])
    unfolding sel
    using s bn la run ax ay
    by (intro conjI) (assumption | rule refl)+
qed

section \<open>Claims about the cell scan\<close>

text \<open>
  Claim C1, as stated, fails. The claim reads: a ball only flips cells whose state differs
  from its own identity, and after the flip the cell's state equals the ball's identity.
  The day ball (\<open>ball_type = True\<close>) at \<open>(134, 12)\<close> on the initial grid flips cell
  \<open>(0, 4)\<close>: its state was \<open>True\<close>, the ball's own, and after the flip it is \<open>False\<close>.
\<close>

theorem run_ball_flip_state_counterexample:
  "run_ball (Vector2 134 12) (Vector2 (-1) 0) init_grid True 1 =
     Inr (Vector2 (269 / 2) 12, Vector2 1 0, grid_set init_grid 0 4 (Rect 100 0 25 25, False))
   \<and> snd (init_grid ! 0 ! 4) = True
   \<and> snd (grid_set init_grid 0 4 (Rect 100 0 25 25, False) ! 0 ! 4) = False"
  by (simp add: run_ball_one_flip init_grid_cells grid_set_nth init_grid_length
      init_grid_row_length)

text \<open>
  Claim C1, amended. Whenever a per-ball advance returns: a cell it changed had the ball's
  own type as its state and is reported as colliding by the resolver (for the original
  centre and the ball's radius), and after the flip it has the same rectangle and the
  opposite state. The scan tests only cells whose state equals the ball's type: on any
  grid \<open>h\<close> with the same states, and the same rectangles on the cells of the ball's type
  (the other cells may hold any rectangle), the advance returns the same centre and
  direction and flips the same cells.
\<close>

theorem run_ball_flips_same_state_cells:
  assumes "run_ball center direction g ball_type dt = Inr (c', d', g')"
  shows "(\<forall>j<length g. \<forall>i<length (g ! j). g' ! j ! i \<noteq> g ! j ! i \<longrightarrow>
            snd (g ! j ! i) = ball_type
            \<and> ball_rect_collision center BALLSIZE (fst (g ! j ! i)) \<noteq> None
            \<and> g' ! j ! i = (fst (g ! j ! i), \<not> ball_type))
    \<and> (\<forall>h. agree ball_type g h \<longrightarrow>
          (\<exists>h'. run_ball center direction h ball_type dt = Inr (c', d', h')
                \<and> agree ball_type g' h'))"
proof (intro conjI allI impI)
  fix j i
  assume j: "j < length g" and i: "i < length (g ! j)" and ne: "g' ! j ! i \<noteq> g ! j ! i"
  from run_ball_returns [OF assms] have "flipped_from center ball_type g g'"
    by (rule conjunct2)
  from flipped_from_nth [OF this j i] ne
  have flipped: "snd (g ! j ! i) = ball_type
      \<and> ball_rect_collision center BALLSIZE (fst (g ! j ! i)) \<noteq> None
      \<and> g' ! j ! i = (fst (g ! j ! i), \<not> ball_type)"
    unfolding cell_flip_def by (elim disjE) (erule (1) notE, assumption)
  from flipped show "snd (g ! j ! i) = ball_type" by (rule conjunct1)
  from flipped show "ball_rect_collision center BALLSIZE (fst (g ! j ! i)) \<noteq> None"
    by (rule conjunct2 [THEN conjunct1])
  from flipped show "g' ! j ! i = (fst (g ! j ! i), \<not> ball_type)"
    by (rule conjunct2 [THEN conjunct2])
next
  fix h
  assume "agree ball_type g h"
  with assms show "\<exists>h'. run_ball center direction h ball_type dt = Inr (c', d', h')
                \<and> agree ball_type g' h'"
    by (rule run_ball_agree)
qed

text \<open>
  The grid \<open>h\<close> below is the initial grid with the rectangle of the night cell \<open>(0, 5)\<close>
  replaced by one that covers the whole world, the ball's centre included: the day ball
  does not test it.
\<close>

lemma agree_init_grid_cover:
  "agree True init_grid (grid_set init_grid 0 5 (Rect 0 0 250 250, False))"
proof -
  have cellrel: "same_tested True (Rect 125 0 25 25, False) (Rect 0 0 250 250, False)"
    by (simp add: same_tested_def)
  have refl_cell: "list_all2 (same_tested True) r r" for r
    by (simp add: list_all2_refl same_tested_def)
  have refl_grid: "list_all2 (list_all2 (same_tested True)) init_grid init_grid"
    by (simp add: list_all2_refl same_tested_def)
  have "list_all2 (same_tested True) ((init_grid ! 0)[5 := (Rect 125 0 25 25, False)])
          ((init_grid ! 0)[5 := (Rect 0 0 250 250, False)])"
    using refl_cell cellrel by (rule list_all2_update_cong)
  then have row: "list_all2 (same_tested True) (init_grid ! 0)
          ((init_grid ! 0)[5 := (Rect 0 0 250 250, False)])"
    by (simp add: init_grid_cells [symmetric])
  have "list_all2 (list_all2 (same_tested True)) (init_grid[0 := init_grid ! 0])
          (init_grid[0 := (init_grid ! 0)[5 := (Rect 0 0 250 250, False)]])"
    using refl_grid row by (rule list_all2_update_cong)
  then show ?thesis by (simp add: agree_def grid_set_def)
qed

theorem run_ball_flips_same_state_cells_witness:
  "run_ball (Vector2 134 12) (Vector2 (-1) 0) init_grid True 1 =
     Inr (Vector2 (269 / 2) 12, Vector2 1 0, grid_set init_grid 0 4 (Rect 100 0 25 25, False))
   \<and> grid_set init_grid 0 4 (Rect 100 0 25 25, False) ! 0 ! 4 \<noteq> init_grid ! 0 ! 4
   \<and> snd (init_grid ! 0 ! 4) = True
   \<and> ball_rect_collision (Vector2 134 12) BALLSIZE (fst (init_grid ! 0 ! 4)) \<noteq> None
   \<and> grid_set init_grid 0 4 (Rect 100 0 25 25, False) ! 0 ! 4 = (fst (init_grid ! 0 ! 4), False)
   \<and> agree True init_grid (grid_set init_grid 0 5 (Rect 0 0 250 250, False))
   \<and> (\<exists>h'. run_ball (Vector2 134 12) (Vector2 (-1) 0)
              (grid_set init_grid 0 5 (Rect 0 0 250 250, False)) True 1
            = Inr (Vector2 (269 / 2) 12, Vector2 1 0, h')
          \<and> agree True (grid_set init_grid 0 4 (Rect 100 0 25 25, False)) h')"
proof -
  let ?g' = "grid_set init_grid 0 4 (Rect 100 0 25 25, False)"
  note inst = run_ball_flips_same_state_cells [OF run_ball_one_flip]
  have j: "0 < length init_grid" and i: "4 < length (init_grid ! 0)"
    by (simp_all add: init_grid_length init_grid_row_length)
  have ne: "?g' ! 0 ! 4 \<noteq> init_grid ! 0 ! 4"
    by (simp add: grid_set_nth init_grid_length init_grid_row_length init_grid_cells)
  from inst [THEN conjunct1, rule_format, OF j i ne]
  have cellfacts: "snd (init_grid ! 0 ! 4) = True
      \<and> ball_rect_collision (Vector2 134 12) BALLSIZE (fst (init_grid ! 0 ! 4)) \<noteq> None
      \<and> ?g' ! 0 ! 4 = (fst (init_grid ! 0 ! 4), \<not> True)" .
  then have cellfacts': "snd (init_grid ! 0 ! 4) = True
      \<and> ball_rect_collision (Vector2 134 12) BALLSIZE (fst (init_grid ! 0 ! 4)) \<noteq> None
      \<and> ?g' ! 0 ! 4 = (fst (init_grid ! 0 ! 4), False)"
    by simp
  from inst [THEN conjunct2, rule_format, OF agree_init_grid_cover]
  have other: "\<exists>h'. run_ball (Vector2 134 12) (Vector2 (-1) 0)
              (grid_set init_grid 0 5 (Rect 0 0 250 250, False)) True 1
            = Inr (Vector2 (269 / 2) 12, Vector2 1 0, h') \<and> agree True ?g' h'" .
  from cellfacts' have c1: "snd (init_grid ! 0 ! 4) = True"
    by (rule conjunct1)
  from cellfacts' have c2: "ball_rect_collision (Vector2 134 12) BALLSIZE
      (fst (init_grid ! 0 ! 4)) \<noteq> None"
    by (rule conjunct2 [THEN conjunct1])
  from cellfacts' have c3: "?g' ! 0 ! 4 = (fst (init_grid ! 0 ! 4), False)"
    by (rule conjunct2 [THEN conjunct2])
  from run_ball_one_flip ne c1 c2 c3 agree_init_grid_cover other
  show ?thesis by (intro conjI)
qed

text \<open>
  Claim C5: the code flips more than one cell in a tick. The \<^verbatim>\<open>break\<close> at a hit leaves
  the loop over the columns only; the loop over the rows goes on, so every row can flip
  its first colliding cell. The day ball at \<open>(130, 25)\<close> on the initial grid flips the
  cells \<open>(0, 4)\<close> and \<open>(1, 4)\<close> in one advance; the direction is reflected twice and comes
  back as it was.
\<close>

theorem run_ball_flips_two_cells:
  "run_ball (Vector2 130 25) (Vector2 (-1) 0) init_grid True 1 =
     Inr (Vector2 (259 / 2) 25, Vector2 (-1) 0,
          grid_set (grid_set init_grid 0 4 (Rect 100 0 25 25, False)) 1 4
            (Rect 100 25 25 25, False))
   \<and> init_grid ! 0 ! 4 = (Rect 100 0 25 25, True)
   \<and> init_grid ! 1 ! 4 = (Rect 100 25 25 25, True)
   \<and> grid_set (grid_set init_grid 0 4 (Rect 100 0 25 25, False)) 1 4
        (Rect 100 25 25 25, False) ! 0 ! 4 = (Rect 100 0 25 25, False)
   \<and> grid_set (grid_set init_grid 0 4 (Rect 100 0 25 25, False)) 1 4
        (Rect 100 25 25 25, False) ! 1 ! 4 = (Rect 100 25 25 25, False)"
  by (simp add: run_ball_two_flips init_grid_nth grid_set_nth init_grid_length
      init_grid_row_length)

end
